theory Spec2Isabelle
  imports Complex_Main
begin

section \<open>Meat quality monitoring: fusion engine, ingestion, decay model and store\<close>

text \<open>
  A shallow embedding of the decision logic of the repository: the gas-status and
  fusion functions (\<^verbatim>\<open>mqtt_client_simple.py\<close>, \<^verbatim>\<open>mock_data.py\<close>, the
  reconciliation block of \<^verbatim>\<open>app.py\<close>), the telemetry handler of the simple
  bus client, the temperature factor of the decay simulator, the retention cleanup
  of the database manager and the \<^verbatim>\<open>start\<close> method of the threaded bus client.

  Finite Python floats are modelled by \<^typ>\<open>real\<close>: the gas functions only compare
  readings with constants, which is exact on floats, and the temperature factor is the
  real-valued law the float code approximates, with the overflow of the power written
  out. The numbers of a telemetry payload keep the distinction between integers, finite
  floats and the special float values. Status values stay strings, as in the source.
\<close>

subsection \<open>Configuration constants (\<^verbatim>\<open>config.py\<close>)\<close>

definition H2S_FRESH_THRESHOLD :: real where "H2S_FRESH_THRESHOLD = 10"
definition H2S_WARNING_THRESHOLD :: real where "H2S_WARNING_THRESHOLD = 50"
definition H2S_CRITICAL_THRESHOLD :: real where "H2S_CRITICAL_THRESHOLD = 100"

definition NH3_FRESH_THRESHOLD :: real where "NH3_FRESH_THRESHOLD = 25"
definition NH3_WARNING_THRESHOLD :: real where "NH3_WARNING_THRESHOLD = 100"
definition NH3_CRITICAL_THRESHOLD :: real where "NH3_CRITICAL_THRESHOLD = 200"

definition CO2_FRESH_THRESHOLD :: real where "CO2_FRESH_THRESHOLD = 400"
definition CO2_WARNING_THRESHOLD :: real where "CO2_WARNING_THRESHOLD = 800"
definition CO2_CRITICAL_THRESHOLD :: real where "CO2_CRITICAL_THRESHOLD = 1200"

definition DB_RETENTION_DAYS :: int where "DB_RETENTION_DAYS = 30"

definition MQTT_TOPIC :: string where "MQTT_TOPIC = ''meat-quality/data''"
definition MQTT_STATUS_TOPIC :: string where "MQTT_STATUS_TOPIC = ''meat-quality/status''"
definition MQTT_LWT_TOPIC :: string where "MQTT_LWT_TOPIC = ''meat-quality/lwt''"

text \<open>\<^verbatim>\<open>QUALITY_LEVEL_MAP\<close>, a dict literal with five distinct keys.\<close>

definition QUALITY_LEVEL_MAP :: "(string \<times> string) list" where
  "QUALITY_LEVEL_MAP =
     [(''EXCELLENT'', ''SAFE''),
      (''GOOD'', ''SAFE''),
      (''FAIR'', ''WARNING''),
      (''POOR'', ''WARNING''),
      (''SPOILED'', ''SPOILED'')]"

text \<open>\<^verbatim>\<open>QUALITY_COLORS[k]\<close> for the keys the reconciliation block reads.\<close>

definition QUALITY_COLORS :: "(string \<times> string) list" where
  "QUALITY_COLORS =
     [(''SAFE'', ''#00AA00''),
      (''WARNING'', ''#FF9800''),
      (''SPOILED'', ''#FF0000''),
      (''CRITICAL'', ''#8B0000'')]"

subsection \<open>Dictionary lookups\<close>

text \<open>\<^verbatim>\<open>d.get(k, default)\<close> on a dict given as a partial map.\<close>

definition dict_get :: "('k \<rightharpoonup> 'v) \<Rightarrow> 'k \<Rightarrow> 'v \<Rightarrow> 'v" where
  "dict_get d k dflt = (case d k of None \<Rightarrow> dflt | Some v \<Rightarrow> v)"

subsection \<open>Gas status and label mapping (\<^verbatim>\<open>mqtt_client_simple.py\<close>)\<close>

definition map_quality_level :: "string \<Rightarrow> string" where
  "map_quality_level esp_quality = dict_get (map_of QUALITY_LEVEL_MAP) esp_quality ''WARNING''"

definition determine_gas_status :: "real \<Rightarrow> real \<Rightarrow> real \<Rightarrow> string" where
  "determine_gas_status h2s nh3 co2 =
     (if h2s \<ge> H2S_CRITICAL_THRESHOLD \<or> nh3 \<ge> NH3_CRITICAL_THRESHOLD
          \<or> co2 \<ge> CO2_CRITICAL_THRESHOLD
      then ''CRITICAL''
      else if h2s \<ge> H2S_WARNING_THRESHOLD \<or> nh3 \<ge> NH3_WARNING_THRESHOLD
          \<or> co2 \<ge> CO2_WARNING_THRESHOLD
      then ''HIGH''
      else ''LOW'')"

text \<open>
  The gas status as the specification words it, with the bands the comments of
  \<^verbatim>\<open>config.py\<close> give to the constants (fresh below the fresh threshold, warning from
  there up to the warning threshold, critical above it): \<open>LOW\<close> when every gas is
  below its fresh/warning boundary, \<open>CRITICAL\<close> when some gas meets or exceeds its
  warning/critical boundary, \<open>HIGH\<close> otherwise.
\<close>

definition gas_status_documented :: "real \<Rightarrow> real \<Rightarrow> real \<Rightarrow> string" where
  "gas_status_documented h2s nh3 co2 =
     (if h2s < H2S_FRESH_THRESHOLD \<and> nh3 < NH3_FRESH_THRESHOLD \<and> co2 < CO2_FRESH_THRESHOLD
      then ''LOW''
      else if h2s \<ge> H2S_WARNING_THRESHOLD \<or> nh3 \<ge> NH3_WARNING_THRESHOLD
          \<or> co2 \<ge> CO2_WARNING_THRESHOLD
      then ''CRITICAL''
      else ''HIGH'')"

subsection \<open>Primary fusion (\<^verbatim>\<open>mock_data.get_fusion_decision\<close>)\<close>

text \<open>
  The three local flags of the function, over the two values it reads from the
  dictionary; the thresholds are the function's own local constants
  (10 and 50 for H2S, 25 and 100 for methane).
\<close>

definition gas_critical :: "real \<Rightarrow> real \<Rightarrow> bool" where
  "gas_critical h2s methane \<longleftrightarrow> h2s \<ge> 50 \<or> methane \<ge> 100"

definition gas_warning :: "real \<Rightarrow> real \<Rightarrow> bool" where
  "gas_warning h2s methane \<longleftrightarrow> h2s \<ge> 10 \<or> methane \<ge> 25"

definition gas_low :: "real \<Rightarrow> real \<Rightarrow> bool" where
  "gas_low h2s methane \<longleftrightarrow> \<not> gas_warning h2s methane"

definition get_fusion_decision :: "string \<Rightarrow> (string \<rightharpoonup> real) \<Rightarrow> string \<times> string" where
  "get_fusion_decision visual_result gas_readings =
     (let h2s = dict_get gas_readings ''h2s_ppm'' 0;
          methane = dict_get gas_readings ''methane_ppm'' 0
      in if visual_result = ''Rotten'' \<or> gas_critical h2s methane
           then (''CRITICAL'', ''#8B0000'')
         else if visual_result = ''Fresh'' \<and> gas_low h2s methane
           then (''SAFE'', ''#00AA00'')
         else if visual_result = ''Fresh'' \<and> gas_warning h2s methane
           then (''WARNING'', ''#FF9800'')
         else if visual_result = ''Rotten'' \<and> gas_low h2s methane
           then (''SPOILED'', ''#FF0000'')
         else (''WARNING'', ''#FFC107''))"

subsection \<open>External reconciliation (\<^verbatim>\<open>app.py\<close>, after the fusion call)\<close>

text \<open>
  The block takes the data mode, the quality label of the current reading and the
  fused (status, colour) pair, and yields the pair shown on the dashboard.
\<close>

definition fusion_reconciliation ::
  "string \<Rightarrow> string \<Rightarrow> string \<times> string \<Rightarrow> string \<times> string" where
  "fusion_reconciliation data_mode quality_level fused =
     (let fusion_status = fst fused in
      if data_mode = ''mqtt'' \<and> quality_level \<noteq> ''UNKNOWN'' then
        (let esp_quality = map_quality_level quality_level in
         if esp_quality = ''CRITICAL'' \<or> fusion_status = ''CRITICAL''
           then (''CRITICAL'', the (map_of QUALITY_COLORS ''CRITICAL''))
         else if esp_quality = ''SPOILED'' \<or> fusion_status = ''SPOILED''
           then (''SPOILED'', the (map_of QUALITY_COLORS ''SPOILED''))
         else if esp_quality = ''WARNING'' \<or> fusion_status = ''WARNING''
           then (''WARNING'', the (map_of QUALITY_COLORS ''WARNING''))
         else fused)
      else fused)"

text \<open>
  The severity order of the specification, \<open>SAFE < WARNING < SPOILED < CRITICAL\<close>,
  as a rank on status strings, and the more severe of two statuses under it.
\<close>

definition severity_levels :: "string list" where
  "severity_levels = [''SAFE'', ''WARNING'', ''SPOILED'', ''CRITICAL'']"

definition severity_rank :: "string \<Rightarrow> nat" where
  "severity_rank s =
     (if s = ''SAFE'' then 0 else if s = ''WARNING'' then 1
      else if s = ''SPOILED'' then 2 else if s = ''CRITICAL'' then 3 else 4)"

definition more_severe :: "string \<Rightarrow> string \<Rightarrow> string" where
  "more_severe a b = (if severity_rank a \<ge> severity_rank b then a else b)"

text \<open>
  The five rules of the specification's primary fusion rule, in its order, over a
  visual verdict and the three gas conditions it names (critical, low, elevated).
\<close>

definition primary_fusion_rule :: "string \<Rightarrow> bool \<Rightarrow> bool \<Rightarrow> bool \<Rightarrow> string" where
  "primary_fusion_rule visual critical low elevated =
     (if visual = ''Rotten'' \<or> critical then ''CRITICAL''
      else if visual = ''Fresh'' \<and> low then ''SAFE''
      else if visual = ''Fresh'' \<and> elevated \<and> \<not> critical then ''WARNING''
      else if visual = ''Rotten'' \<and> low then ''SPOILED''
      else ''WARNING'')"

subsection \<open>Python values, exceptions and the process state\<close>

text \<open>
  The values that flow through the ingestion path: what \<^verbatim>\<open>json.loads\<close> can return,
  plus \<^verbatim>\<open>datetime\<close> objects (seconds on the local time axis). Integers are
  unbounded; a float is finite or one of the three special values, which
  \<^verbatim>\<open>json.loads\<close> accepts as \<^verbatim>\<open>NaN\<close>, \<^verbatim>\<open>Infinity\<close> and \<^verbatim>\<open>-Infinity\<close>. A
  \<^verbatim>\<open>str\<close> is its UTF-8 encoding, a lone surrogate (which a JSON escape can produce)
  kept as its three bytes. A dict is an association list with distinct keys, read with
  \<^const>\<open>map_of\<close>.
\<close>

datatype pyfloat = Finite real | NaN | PosInf | NegInf

datatype pyval =
    PyNone
  | PyBool bool
  | PyInt int
  | PyFloat pyfloat
  | PyStr string
  | PyDatetime real
  | PyList "pyval list"
  | PyDict "(string \<times> pyval) list"

datatype py_error =
    JSONDecodeError
  | UnicodeDecodeError
  | AttributeError
  | TypeError
  | ValueError
  | UnicodeEncodeError
  | KeyError
  | OverflowError
  | RecursionError
  | SqliteInterfaceError
  | SqliteIntegrityError
  | CallbackError

text \<open>A finite float, such as the default \<^verbatim>\<open>0.0\<close> of the handler.\<close>

abbreviation PyNum :: "real \<Rightarrow> pyval" where
  "PyNum x \<equiv> PyFloat (Finite x)"

datatype log_level = DEBUG | INFO | WARNING | ERROR

record sensor_row =
  row_id :: nat
  timestamp :: real
  device_id :: pyval
  temperature :: pyval
  humidity :: pyval
  mq135_co2 :: pyval
  mq136_h2s :: pyval
  mq137_nh3 :: pyval
  quality_level :: pyval
  wifi_rssi :: pyval
  sensor_status :: string

record visual_row =
  visual_id :: nat
  visual_timestamp :: real
  species :: string
  visual_status :: string
  confidence :: real

record fusion_row =
  fusion_id :: nat
  fusion_timestamp :: real
  fusion_visual_status :: string
  gas_status :: string
  fusion_status :: string

text \<open>
  The SQLite file: the three tables in insertion order and the AUTOINCREMENT counter
  of \<^verbatim>\<open>sensor_readings\<close>. Rows keep the Python values that were bound; SQLite's
  column-affinity conversions and I/O faults of the file are not modelled.
\<close>

record database =
  sensor_readings :: "sensor_row list"
  visual_predictions :: "visual_row list"
  fusion_decisions :: "fusion_row list"
  sensor_seq :: nat

text \<open>
  What lives outside the objects: the store behind the singleton database manager, the
  calls made to the module loggers (level and the constant part of the message) and the
  number of \<^verbatim>\<open>threading.Thread\<close> objects started.
\<close>

record world =
  db :: database
  log_records :: "(log_level \<times> string) list"
  threads :: nat

definition logger :: "log_level \<Rightarrow> string \<Rightarrow> world \<Rightarrow> world" where
  "logger lvl message w = w\<lparr>log_records := log_records w @ [(lvl, message)]\<rparr>"

text \<open>
  Library functions and the clock, taken as parameters: \<^verbatim>\<open>json.loads\<close>,
  \<^verbatim>\<open>json.dumps\<close>, \<^verbatim>\<open>bytes.decode('utf-8')\<close>, \<^verbatim>\<open>datetime.fromisoformat\<close>,
  \<^verbatim>\<open>datetime.fromtimestamp\<close>
  and \<^verbatim>\<open>datetime.now()\<close>. \<open>Inl\<close> is the exception raised.
\<close>

record py_env =
  json_loads :: "string \<Rightarrow> py_error + pyval"
  json_dumps :: "pyval \<Rightarrow> string"
  utf8_decode :: "string \<Rightarrow> py_error + string"
  fromisoformat :: "string \<Rightarrow> py_error + real"
  fromtimestamp :: "real \<Rightarrow> py_error + real"
  now :: real

definition bind_err :: "'e + 'a \<Rightarrow> ('a \<Rightarrow> 'e + 'b) \<Rightarrow> 'e + 'b" where
  "bind_err r f = (case r of Inl e \<Rightarrow> Inl e | Inr x \<Rightarrow> f x)"

text \<open>\<^verbatim>\<open>x.get(k, default)\<close> on an arbitrary value: only dicts have the method.\<close>

fun py_get :: "pyval \<Rightarrow> string \<Rightarrow> pyval \<Rightarrow> py_error + pyval" where
  "py_get (PyDict kvs) k dflt = Inr (dict_get (map_of kvs) k dflt)"
| "py_get _ k dflt = Inl AttributeError"

text \<open>\<^verbatim>\<open>d[k]\<close> on a dict.\<close>

definition py_item :: "(string \<rightharpoonup> pyval) \<Rightarrow> string \<Rightarrow> py_error + pyval" where
  "py_item d k = (case d k of None \<Rightarrow> Inl KeyError | Some v \<Rightarrow> Inr v)"

text \<open>
  Converting an integer to a float rounds to nearest and raises OverflowError when the
  result is not a double: from \<open>2 ^ 1024 - 2 ^ 970\<close> on, in absolute value.
\<close>

definition int_fits_float :: "int \<Rightarrow> bool" where
  "int_fits_float n \<longleftrightarrow> \<bar>n\<bar> < 2 ^ 1024 - 2 ^ 970"

text \<open>
  The format specs \<^verbatim>\<open>:.2f\<close> and \<^verbatim>\<open>:.1f\<close> of the log line: floats (the special
  values too) and booleans format, an integer is converted to a float first,
  \<^verbatim>\<open>None\<close> and containers raise TypeError, strings raise ValueError.
\<close>

fun format_float :: "pyval \<Rightarrow> py_error + unit" where
  "format_float (PyFloat x) = Inr ()"
| "format_float (PyInt n) = (if int_fits_float n then Inr () else Inl OverflowError)"
| "format_float (PyBool b) = Inr ()"
| "format_float (PyStr s) = Inl ValueError"
| "format_float _ = Inl TypeError"

subsection \<open>Decay model (\<^verbatim>\<open>mock_data.MeatDecaySimulator\<close>)\<close>





subsection \<open>Reading store (\<^verbatim>\<open>db_manager.DatabaseManager\<close>)\<close>

text \<open>
  A string holds a lone surrogate when the byte \<open>0xED\<close> is followed by a byte from
  \<open>0xA0\<close> on; such a string cannot be encoded as UTF-8.
\<close>

fun has_surrogate :: "string \<Rightarrow> bool" where
  "has_surrogate (a # b # cs) =
     ((a = CHR 0xED \<and> (160::nat) \<le> of_char b) \<or> has_surrogate (b # cs))"
| "has_surrogate cs = False"

text \<open>
  Parameter binding of \<^verbatim>\<open>sqlite3\<close>: lists and dicts are not supported, an integer
  must fit in 64 bits, a string must encode as UTF-8. \<^verbatim>\<open>None\<close> and a NaN are bound
  as \<^verbatim>\<open>NULL\<close>.
\<close>

fun bind_error :: "pyval \<Rightarrow> py_error option" where
  "bind_error (PyList xs) = Some SqliteInterfaceError"
| "bind_error (PyDict kvs) = Some SqliteInterfaceError"
| "bind_error (PyInt n) = (if - (2 ^ 63) \<le> n \<and> n < 2 ^ 63 then None else Some OverflowError)"
| "bind_error (PyStr s) = (if has_surrogate s then Some UnicodeEncodeError else None)"
| "bind_error v = None"

fun binds_null :: "pyval \<Rightarrow> bool" where
  "binds_null PyNone = True"
| "binds_null (PyFloat NaN) = True"
| "binds_null v = False"

fun first_error :: "py_error option list \<Rightarrow> py_error option" where
  "first_error [] = None"
| "first_error (Some e # es) = Some e"
| "first_error (None # es) = first_error es"

definition replace_Z :: "string \<Rightarrow> string" where
  "replace_Z s = concat (map (\<lambda>c. if c = CHR ''Z'' then ''+00:00'' else [c]) s)"

text \<open>
  The timestamp branch of \<^verbatim>\<open>insert_sensor_reading\<close>: strings are parsed,
  numbers (booleans are ints) are milliseconds, anything else is replaced by the clock.
  Dividing an integer by 1000 raises OverflowError when the quotient is not a double;
  \<^verbatim>\<open>fromtimestamp\<close> raises ValueError on a NaN and OverflowError on an infinity.
\<close>

fun parse_timestamp :: "py_env \<Rightarrow> pyval \<Rightarrow> py_error + real" where
  "parse_timestamp env (PyStr s) = fromisoformat env (replace_Z s)"
| "parse_timestamp env (PyInt n) =
     (if \<bar>real_of_int n\<bar> / 1000 < 2 ^ 1024 - 2 ^ 970 then fromtimestamp env (real_of_int n / 1000)
      else Inl OverflowError)"
| "parse_timestamp env (PyFloat (Finite x)) = fromtimestamp env (x / 1000)"
| "parse_timestamp env (PyFloat NaN) = Inl ValueError"
| "parse_timestamp env (PyFloat x) = Inl OverflowError"
| "parse_timestamp env (PyBool b) = fromtimestamp env ((if b then 1 else 0) / 1000)"
| "parse_timestamp env v = Inr (now env)"

text \<open>
  The \<^verbatim>\<open>INSERT\<close>: every parameter must bind (the timestamp is a
  \<^verbatim>\<open>datetime\<close> and the status is the ASCII text of \<^verbatim>\<open>json.dumps\<close>, which
  always bind), the seven \<^verbatim>\<open>NOT NULL\<close> columns reject \<^verbatim>\<open>NULL\<close>, and the new row
  gets the next AUTOINCREMENT id.
\<close>

definition execute_insert :: "sensor_row \<Rightarrow> database \<Rightarrow> py_error + (nat \<times> database)" where
  "execute_insert r d =
     (let bound = [device_id r, temperature r, humidity r, mq135_co2 r, mq136_h2s r,
                   mq137_nh3 r, quality_level r];
          i = Suc (sensor_seq d)
      in case first_error (map bind_error (bound @ [wifi_rssi r])) of
           Some e \<Rightarrow> Inl e
         | None \<Rightarrow>
             if list_ex binds_null bound then Inl SqliteIntegrityError
             else Inr (i, d\<lparr>sensor_readings := sensor_readings d @ [r\<lparr>row_id := i\<rparr>],
                            sensor_seq := i\<rparr>))"

text \<open>The body of the \<^verbatim>\<open>try\<close> of \<^verbatim>\<open>insert_sensor_reading\<close>, up to the commit.\<close>

definition insert_sensor_reading_try ::
  "py_env \<Rightarrow> (string \<rightharpoonup> pyval) \<Rightarrow> database \<Rightarrow> py_error + (nat \<times> database)" where
  "insert_sensor_reading_try env data d =
     bind_err (py_item data ''timestamp'') (\<lambda>ts.
     bind_err (parse_timestamp env ts) (\<lambda>t.
     let status = json_dumps env (dict_get data ''sensor_status'' (PyDict [])) in
     bind_err (py_item data ''device_id'') (\<lambda>dev.
     bind_err (py_item data ''temperature'') (\<lambda>temp.
     bind_err (py_item data ''humidity'') (\<lambda>hum.
     bind_err (py_item data ''mq135_co2'') (\<lambda>co2.
     bind_err (py_item data ''mq136_h2s'') (\<lambda>h2s.
     bind_err (py_item data ''mq137_nh3'') (\<lambda>nh3.
     bind_err (py_item data ''quality_level'') (\<lambda>quality.
     execute_insert
       \<lparr>row_id = 0, timestamp = t, device_id = dev, temperature = temp, humidity = hum,
        mq135_co2 = co2, mq136_h2s = h2s, mq137_nh3 = nh3, quality_level = quality,
        wifi_rssi = dict_get data ''wifi_rssi'' PyNone, sensor_status = status\<rparr> d)))))))))"

text \<open>
  \<^verbatim>\<open>insert_sensor_reading\<close>: on an exception nothing is written, the error is
  logged and raised again.
\<close>

definition insert_sensor_reading ::
  "py_env \<Rightarrow> (string \<rightharpoonup> pyval) \<Rightarrow> world \<Rightarrow> (py_error + nat) \<times> world" where
  "insert_sensor_reading env data w =
     (case insert_sensor_reading_try env data (db w) of
        Inl e \<Rightarrow> (Inl e, logger ERROR ''Error inserting sensor reading'' w)
      | Inr (i, d) \<Rightarrow> (Inr i, logger DEBUG ''Inserted sensor reading with ID'' (w\<lparr>db := d\<rparr>)))"

text \<open>
  \<^verbatim>\<open>cleanup_old_data\<close>. Times are seconds; \<^verbatim>\<open>timedelta\<close> accepts at most
  999999999 days and the cutoff must not fall before \<^verbatim>\<open>datetime.min\<close>, else the
  subtraction raises OverflowError outside the \<^verbatim>\<open>try\<close>.
\<close>

definition DATETIME_MIN :: real where "DATETIME_MIN = - 62135596800"

definition cleanup_old_data :: "py_env \<Rightarrow> int option \<Rightarrow> world \<Rightarrow> py_error option \<times> world" where
  "cleanup_old_data env retention_days_arg w =
     (let retention_days = (case retention_days_arg of None \<Rightarrow> DB_RETENTION_DAYS | Some n \<Rightarrow> n)
      in if retention_days \<le> 0
           then (None, logger INFO ''Data retention is disabled (retention_days <= 0)'' w)
         else if retention_days > 999999999
                 \<or> now env - 86400 * real_of_int retention_days < DATETIME_MIN
           then (Some OverflowError, w)
         else
           (let cutoff_date = now env - 86400 * real_of_int retention_days;
                d = db w;
                d' = d\<lparr>sensor_readings := filter (\<lambda>r. \<not> timestamp r < cutoff_date) (sensor_readings d),
                       visual_predictions :=
                         filter (\<lambda>r. \<not> visual_timestamp r < cutoff_date) (visual_predictions d),
                       fusion_decisions :=
                         filter (\<lambda>r. \<not> fusion_timestamp r < cutoff_date) (fusion_decisions d)\<rparr>
            in (None, logger INFO ''Cleanup completed'' (w\<lparr>db := d'\<rparr>))))"

subsection \<open>Telemetry handler (\<^verbatim>\<open>mqtt_client_simple.SimpleMQTTClient\<close>)\<close>

text \<open>
  The attributes the message handler reads or writes. A message callback may raise;
  none is installed anywhere in the repository. Message payloads are byte strings.
\<close>

record simple_client =
  topic :: string
  last_message :: "string option"
  on_message_callback :: "(string \<Rightarrow> string \<Rightarrow> py_error option) option"

record mqtt_message =
  msg_topic :: string
  msg_payload :: string

text \<open>
  The pure part of the \<^verbatim>\<open>try\<close> block of \<^verbatim>\<open>_process_sensor_data\<close>: parse,
  read the nested groups with their defaults, format the five numbers for the log line,
  and build the dict handed to the store.
\<close>

definition extract_reading :: "py_env \<Rightarrow> string \<Rightarrow> py_error + (string \<times> pyval) list" where
  "extract_reading env payload =
     bind_err (json_loads env payload) (\<lambda>data.
     bind_err (py_get data ''sensors'' (PyDict [])) (\<lambda>sensors.
     bind_err (py_get data ''quality'' (PyDict [])) (\<lambda>quality_data.
     bind_err (py_get sensors ''mq136_h2s'' (PyNum 0)) (\<lambda>h2s.
     bind_err (py_get sensors ''mq137_nh3'' (PyNum 0)) (\<lambda>nh3.
     bind_err (py_get sensors ''mq135_co2'' (PyNum 0)) (\<lambda>co2.
     bind_err (py_get sensors ''temperature'' (PyNum 0)) (\<lambda>temp.
     bind_err (py_get sensors ''humidity'' (PyNum 0)) (\<lambda>humidity.
     bind_err (py_get quality_data ''level'' (PyStr ''UNKNOWN'')) (\<lambda>quality.
     bind_err (format_float h2s) (\<lambda>_.
     bind_err (format_float nh3) (\<lambda>_.
     bind_err (format_float co2) (\<lambda>_.
     bind_err (format_float temp) (\<lambda>_.
     bind_err (format_float humidity) (\<lambda>_.
     Inr [(''timestamp'', PyDatetime (now env)),
          (''device_id'', PyStr ''ESP32-Sensor''),
          (''temperature'', temp),
          (''humidity'', humidity),
          (''mq135_co2'', co2),
          (''mq136_h2s'', h2s),
          (''mq137_nh3'', nh3),
          (''quality_level'', quality)]))))))))))))))"

definition process_sensor_data_try :: "py_env \<Rightarrow> string \<Rightarrow> world \<Rightarrow> (py_error + unit) \<times> world" where
  "process_sensor_data_try env payload w =
     (case extract_reading env payload of
        Inl e \<Rightarrow> (Inl e, w)
      | Inr data \<Rightarrow>
          (case insert_sensor_reading env (map_of data) (logger INFO ''Processed sensor data'' w) of
             (Inl e, w') \<Rightarrow> (Inl e, w')
           | (Inr i, w') \<Rightarrow> (Inr (), w')))"

text \<open>
  \<^verbatim>\<open>_process_sensor_data\<close>: the two \<^verbatim>\<open>except\<close> clauses log and swallow whatever
  the body raised, so the method itself only returns.
\<close>

definition process_sensor_data :: "py_env \<Rightarrow> string \<Rightarrow> world \<Rightarrow> world" where
  "process_sensor_data env payload w =
     (case process_sensor_data_try env payload w of
        (Inl JSONDecodeError, w') \<Rightarrow> logger ERROR ''Error parsing sensor data JSON'' w'
      | (Inl e, w') \<Rightarrow> logger ERROR ''Error processing sensor data'' w'
      | (Inr u, w') \<Rightarrow> w')"

text \<open>The \<^verbatim>\<open>try\<close> block of \<^verbatim>\<open>_on_message\<close>.\<close>

definition on_message_try ::
  "py_env \<Rightarrow> mqtt_message \<Rightarrow> simple_client \<times> world \<Rightarrow> (py_error + unit) \<times> simple_client \<times> world" where
  "on_message_try env msg sw =
     (let self = fst sw; w = snd sw in
      case utf8_decode env (msg_payload msg) of
        Inl e \<Rightarrow> (Inl e, self, w)
      | Inr payload \<Rightarrow>
          (let w1 = logger DEBUG ''Received message on topic'' w;
               w2 = (if msg_topic msg = topic self then process_sensor_data env payload w1
                     else if msg_topic msg = MQTT_STATUS_TOPIC then logger INFO ''Device status'' w1
                     else if msg_topic msg = MQTT_LWT_TOPIC then logger WARNING ''Device LWT'' w1
                     else w1);
               self' = self\<lparr>last_message := Some payload\<rparr>
           in case on_message_callback self' of
                None \<Rightarrow> (Inr (), self', w2)
              | Some callback \<Rightarrow>
                  (case callback (msg_topic msg) payload of
                     Some e \<Rightarrow> (Inl e, self', w2)
                   | None \<Rightarrow> (Inr (), self', w2))))"

text \<open>
  \<^verbatim>\<open>_on_message\<close>: the first component is the exception that leaves the handler,
  \<open>None\<close> when it returns.
\<close>

definition on_message ::
  "py_env \<Rightarrow> mqtt_message \<Rightarrow> simple_client \<times> world \<Rightarrow> py_error option \<times> simple_client \<times> world" where
  "on_message env msg sw =
     (case on_message_try env msg sw of
        (Inl e, self', w') \<Rightarrow> (None, self', logger ERROR ''Error processing MQTT message'' w')
      | (Inr u, self', w') \<Rightarrow> (None, self', w'))"

text \<open>The log calls made since an earlier state of the log.\<close>

definition new_log_records :: "world \<Rightarrow> world \<Rightarrow> (log_level \<times> string) list" where
  "new_log_records w w' = drop (length (log_records w)) (log_records w')"

subsection \<open>Threaded bus client (\<^verbatim>\<open>mqtt_client.MQTTClient\<close>)\<close>

text \<open>
  The flags of the client; \<^verbatim>\<open>start\<close> assigns no other attribute. The thread body
  runs concurrently and is not part of the model: starting the thread is counted in
  \<^const>\<open>threads\<close>.
\<close>

record mqtt_client =
  keep_running :: bool
  started :: bool
  loop_started :: bool
  connected_flag :: bool

definition MQTTClient :: mqtt_client where
  "MQTTClient = \<lparr>keep_running = True, started = False, loop_started = False,
                 connected_flag = False\<rparr>"

definition start :: "mqtt_client \<times> world \<Rightarrow> mqtt_client \<times> world" where
  "start sw =
     (let self = fst sw; w = snd sw in
      if started self
        then (self, logger WARNING ''MQTT client already started - ignoring duplicate start() call'' w)
      else (self\<lparr>started := True\<rparr>,
            logger INFO ''MQTT client thread started'' (w\<lparr>threads := Suc (threads w)\<rparr>)))"

subsection \<open>Vocabulary of the properties\<close>

text \<open>
  A raw payload is non-parseable when it does not decode as UTF-8 or \<^verbatim>\<open>json.loads\<close>
  raises on the decoded text; an error is logged between two states when a call at
  level \<open>ERROR\<close> was added.
\<close>

definition non_parseable :: "py_env \<Rightarrow> string \<Rightarrow> bool" where
  "non_parseable env raw =
     (case utf8_decode env raw of
        Inl e \<Rightarrow> True
      | Inr payload \<Rightarrow> (case json_loads env payload of Inl e \<Rightarrow> True | Inr v \<Rightarrow> False))"

definition logged_error :: "world \<Rightarrow> world \<Rightarrow> bool" where
  "logged_error w w' = (ERROR \<in> set (map fst (new_log_records w w')))"










subsection \<open>Concrete inputs\<close>

text \<open>
  A parser that knows three telemetry documents, a store holding one row per table, and a
  client subscribed to the telemetry topic without a callback.
\<close>

definition example_env :: py_env where
  \<open>example_env =
     \<lparr>json_loads = (\<lambda>s. if s = ''{"sensors": {"mq136_h2s": 12.5}, "quality": {}}''
                          then Inr (PyDict [(''sensors'', PyDict [(''mq136_h2s'', PyNum 12.5)]),
                                            (''quality'', PyDict [])])
                        else if s = ''[]'' then Inr (PyList [])
                        else if s = ''{"sensors": {"temperature": null}}''
                          then Inr (PyDict [(''sensors'', PyDict [(''temperature'', PyNone)])])
                        else Inl JSONDecodeError),
      json_dumps = (\<lambda>v. ''{}''),
      utf8_decode = (\<lambda>b. Inr b),
      fromisoformat = (\<lambda>s. Inl ValueError),
      fromtimestamp = (\<lambda>t. Inr t),
      now = 1700000000\<rparr>\<close>

definition example_world :: world where
  "example_world =
     \<lparr>db = \<lparr>sensor_readings =
               [\<lparr>row_id = 1, timestamp = 1600000000, device_id = PyStr ''ESP32-Sensor'',
                 temperature = PyNum 4, humidity = PyNum 70, mq135_co2 = PyNum 450,
                 mq136_h2s = PyNum 5, mq137_nh3 = PyNum 15, quality_level = PyStr ''GOOD'',
                 wifi_rssi = PyNone, sensor_status = ''{}''\<rparr>],
             visual_predictions =
               [\<lparr>visual_id = 1, visual_timestamp = 1600000000, species = ''Beef'',
                 visual_status = ''Fresh'', confidence = 99\<rparr>],
             fusion_decisions =
               [\<lparr>fusion_id = 1, fusion_timestamp = 1600000000, fusion_visual_status = ''Fresh'',
                 gas_status = ''LOW'', fusion_status = ''SAFE''\<rparr>],
             sensor_seq = 1\<rparr>,
      log_records = [],
      threads = 0\<rparr>"

definition example_client :: simple_client where
  "example_client = \<lparr>topic = MQTT_TOPIC, last_message = None, on_message_callback = None\<rparr>"


section \<open>Properties\<close>

subsection \<open>Gas status\<close>

lemmas threshold_defs =
  H2S_FRESH_THRESHOLD_def H2S_WARNING_THRESHOLD_def H2S_CRITICAL_THRESHOLD_def
  NH3_FRESH_THRESHOLD_def NH3_WARNING_THRESHOLD_def NH3_CRITICAL_THRESHOLD_def
  CO2_FRESH_THRESHOLD_def CO2_WARNING_THRESHOLD_def CO2_CRITICAL_THRESHOLD_def

text \<open>
  What the function computes: it compares with the warning and the critical constants
  and never reads the fresh ones.
\<close>

lemma determine_gas_status_bands:
  "(h2s \<ge> 100 \<or> nh3 \<ge> 200 \<or> co2 \<ge> 1200 \<longrightarrow> determine_gas_status h2s nh3 co2 = ''CRITICAL'')
   \<and> (h2s < 100 \<and> nh3 < 200 \<and> co2 < 1200 \<and> (h2s \<ge> 50 \<or> nh3 \<ge> 100 \<or> co2 \<ge> 800)
        \<longrightarrow> determine_gas_status h2s nh3 co2 = ''HIGH'')
   \<and> (h2s < 50 \<and> nh3 < 100 \<and> co2 < 800 \<longrightarrow> determine_gas_status h2s nh3 co2 = ''LOW'')"
  by (auto simp: determine_gas_status_def threshold_defs)

text \<open>
  C1 does not hold of the code. For the readings (60, 15, 450) the function returns
  \<open>HIGH\<close> where the claim, the documented bands (H2S critical above 50 ppm) and the
  fusion function's own H2S threshold of 50 give \<open>CRITICAL\<close>; for (15, 15, 450) it
  returns \<open>LOW\<close> where they give \<open>HIGH\<close> (H2S warning from 10 ppm). For (5, 15, 450)
  it returns \<open>LOW\<close>, while CO2 at 450 ppm is above its fresh boundary of 400.
\<close>

theorem determine_gas_status_misses_documented_bands:
  "determine_gas_status 60 15 450 = ''HIGH''
   \<and> gas_status_documented 60 15 450 = ''CRITICAL''
   \<and> gas_critical 60 15
   \<and> determine_gas_status 15 15 450 = ''LOW''
   \<and> gas_status_documented 15 15 450 = ''HIGH''
   \<and> gas_warning 15 15
   \<and> determine_gas_status 5 15 450 = ''LOW''
   \<and> gas_status_documented 5 15 450 = ''HIGH''"
  by (simp add: determine_gas_status_def gas_status_documented_def threshold_defs
        gas_critical_def gas_warning_def)

subsection \<open>External reconciliation\<close>

lemma map_quality_level_table:
  "map_quality_level l =
     (if l = ''EXCELLENT'' \<or> l = ''GOOD'' then ''SAFE''
      else if l = ''FAIR'' \<or> l = ''POOR'' then ''WARNING''
      else if l = ''SPOILED'' then ''SPOILED'' else ''WARNING'')"
  by (simp add: map_quality_level_def QUALITY_LEVEL_MAP_def dict_get_def)

lemma map_quality_level_cases:
  "map_quality_level l = ''SAFE'' \<or> map_quality_level l = ''WARNING''
     \<or> map_quality_level l = ''SPOILED''"
  by (simp add: map_quality_level_table)

text \<open>
  C2: in MQTT mode, when the reading carries a quality label (any label other than the
  \<open>UNKNOWN\<close> placeholder), the status after reconciliation is the more severe, under
  \<open>SAFE < WARNING < SPOILED < CRITICAL\<close>, of the fused status and the mapped label,
  where the mapping is the fixed table with \<open>WARNING\<close> for every label outside it; the
  result is a severity level at least as severe as both.
\<close>

theorem fusion_reconciliation_more_severe:
  assumes "fused \<in> set severity_levels" and "label \<noteq> ''UNKNOWN''"
  shows "fst (fusion_reconciliation ''mqtt'' label (fused, colour))
           = more_severe fused (map_quality_level label)
       \<and> fst (fusion_reconciliation ''mqtt'' label (fused, colour)) \<in> set severity_levels
       \<and> severity_rank (fst (fusion_reconciliation ''mqtt'' label (fused, colour)))
           \<ge> severity_rank fused
       \<and> severity_rank (fst (fusion_reconciliation ''mqtt'' label (fused, colour)))
           \<ge> severity_rank (map_quality_level label)
       \<and> map_quality_level label =
           (if label = ''EXCELLENT'' \<or> label = ''GOOD'' then ''SAFE''
            else if label = ''FAIR'' \<or> label = ''POOR'' then ''WARNING''
            else if label = ''SPOILED'' then ''SPOILED'' else ''WARNING'')"
  using assms map_quality_level_cases [of label]
  by (auto simp: fusion_reconciliation_def more_severe_def severity_rank_def
        severity_levels_def Let_def map_quality_level_table)

theorem fusion_reconciliation_more_severe_witness:
  "''SAFE'' \<in> set severity_levels \<and> ''SPOILED'' \<noteq> ''UNKNOWN''
   \<and> fst (fusion_reconciliation ''mqtt'' ''SPOILED'' (''SAFE'', ''#00AA00'')) = ''SPOILED''
   \<and> ''CRITICAL'' \<in> set severity_levels \<and> ''GOOD'' \<noteq> ''UNKNOWN''
   \<and> fst (fusion_reconciliation ''mqtt'' ''GOOD'' (''CRITICAL'', ''#8B0000'')) = ''CRITICAL''
   \<and> fst (fusion_reconciliation ''mqtt'' ''SAFE'' (''CRITICAL'', ''#8B0000'')) = ''CRITICAL''"
proof -
  have a: "''SAFE'' \<in> set severity_levels" and b: "''CRITICAL'' \<in> set severity_levels"
    by (simp_all add: severity_levels_def)
  have c: "''SPOILED'' \<noteq> ''UNKNOWN''" and d: "''GOOD'' \<noteq> ''UNKNOWN''"
    and e: "''SAFE'' \<noteq> ''UNKNOWN''"
    by simp_all
  show ?thesis
    using a b c d
      fusion_reconciliation_more_severe [OF a c, of "''#00AA00''"]
      fusion_reconciliation_more_severe [OF b d, of "''#8B0000''"]
      fusion_reconciliation_more_severe [OF b e, of "''#8B0000''"]
    by (simp add: more_severe_def severity_rank_def)
qed

subsection \<open>Primary fusion\<close>

text \<open>
  C3: the status of \<^const>\<open>get_fusion_decision\<close> is what the five rules of the
  specification give when applied in order to the visual verdict and the function's
  gas flags: rotten or critical gas gives \<open>CRITICAL\<close>; otherwise fresh with low gas
  gives \<open>SAFE\<close>, fresh with elevated gas gives \<open>WARNING\<close>, and every remaining
  combination gives \<open>WARNING\<close>. Every input yields one of the four severity levels,
  and a verdict other than fresh never yields \<open>SAFE\<close>.
\<close>

theorem get_fusion_decision_rules:
  "(let h2s = dict_get g ''h2s_ppm'' 0; methane = dict_get g ''methane_ppm'' 0;
        status = fst (get_fusion_decision v g)
    in status = primary_fusion_rule v (gas_critical h2s methane) (gas_low h2s methane)
                  (gas_warning h2s methane)
     \<and> (v = ''Rotten'' \<or> gas_critical h2s methane \<longrightarrow> status = ''CRITICAL'')
     \<and> (v = ''Fresh'' \<and> \<not> gas_critical h2s methane \<and> gas_low h2s methane
          \<longrightarrow> status = ''SAFE'')
     \<and> (v = ''Fresh'' \<and> \<not> gas_critical h2s methane \<and> gas_warning h2s methane
          \<longrightarrow> status = ''WARNING'')
     \<and> (v \<noteq> ''Fresh'' \<and> v \<noteq> ''Rotten'' \<and> \<not> gas_critical h2s methane
          \<longrightarrow> status = ''WARNING'')
     \<and> status \<in> set severity_levels
     \<and> (v \<noteq> ''Fresh'' \<longrightarrow> status \<noteq> ''SAFE''))"
  by (auto simp: get_fusion_decision_def primary_fusion_rule_def Let_def gas_low_def
        severity_levels_def)

theorem get_fusion_decision_rules_witness:
  "fst (get_fusion_decision ''Rotten'' Map.empty) = ''CRITICAL''
   \<and> fst (get_fusion_decision ''Fresh'' [''h2s_ppm'' \<mapsto> 60]) = ''CRITICAL''
   \<and> fst (get_fusion_decision ''Fresh'' [''h2s_ppm'' \<mapsto> 5, ''methane_ppm'' \<mapsto> 15]) = ''SAFE''
   \<and> fst (get_fusion_decision ''Fresh'' [''h2s_ppm'' \<mapsto> 15, ''methane_ppm'' \<mapsto> 15]) = ''WARNING''
   \<and> fst (get_fusion_decision ''Unknown'' [''h2s_ppm'' \<mapsto> 5, ''methane_ppm'' \<mapsto> 15]) = ''WARNING''"
  using get_fusion_decision_rules [of Map.empty "''Rotten''"]
    get_fusion_decision_rules [of "[''h2s_ppm'' \<mapsto> 60]" "''Fresh''"]
    get_fusion_decision_rules [of "[''h2s_ppm'' \<mapsto> 5, ''methane_ppm'' \<mapsto> 15]" "''Fresh''"]
    get_fusion_decision_rules [of "[''h2s_ppm'' \<mapsto> 15, ''methane_ppm'' \<mapsto> 15]" "''Fresh''"]
    get_fusion_decision_rules [of "[''h2s_ppm'' \<mapsto> 5, ''methane_ppm'' \<mapsto> 15]" "''Unknown''"]
  by (simp add: Let_def dict_get_def gas_critical_def gas_warning_def gas_low_def
        primary_fusion_rule_def)

text \<open>
  C4: a rotten verdict gives \<open>CRITICAL\<close> whatever the gas readings are, and no input
  makes \<^const>\<open>get_fusion_decision\<close> return \<open>SPOILED\<close>: the fourth branch is
  unreachable.
\<close>

theorem rotten_always_critical_never_spoiled:
  "(v = ''Rotten'' \<longrightarrow> get_fusion_decision v g = (''CRITICAL'', ''#8B0000''))
   \<and> fst (get_fusion_decision v g) \<noteq> ''SPOILED''"
  by (simp add: get_fusion_decision_def Let_def)

theorem rotten_always_critical_never_spoiled_witness:
  "get_fusion_decision ''Rotten'' [''h2s_ppm'' \<mapsto> 0, ''methane_ppm'' \<mapsto> 0]
     = (''CRITICAL'', ''#8B0000'')
   \<and> fst (get_fusion_decision ''Rotten'' [''h2s_ppm'' \<mapsto> 0, ''methane_ppm'' \<mapsto> 0])
       \<noteq> ''SPOILED''"
  using rotten_always_critical_never_spoiled
          [of "''Rotten''" "[''h2s_ppm'' \<mapsto> 0, ''methane_ppm'' \<mapsto> 0]"]
  by simp

text \<open>
  C10: the result depends only on the visual verdict and on the entries \<open>h2s_ppm\<close>
  and \<open>methane_ppm\<close> of the dictionary, each read as 0 when absent: two
  dictionaries that agree there give the same (status, colour) pair, whatever else
  they hold.
\<close>

theorem get_fusion_decision_depends_on_two_keys:
  assumes "dict_get g ''h2s_ppm'' 0 = dict_get g' ''h2s_ppm'' 0"
    and "dict_get g ''methane_ppm'' 0 = dict_get g' ''methane_ppm'' 0"
  shows "get_fusion_decision v g = get_fusion_decision v g'"
  using assms by (simp add: get_fusion_decision_def)

theorem get_fusion_decision_depends_on_two_keys_witness:
  "dict_get [''h2s_ppm'' \<mapsto> 12, ''ammonia_ppm'' \<mapsto> 1] ''h2s_ppm'' 0
     = dict_get [''h2s_ppm'' \<mapsto> 12, ''methane_ppm'' \<mapsto> 0, ''ammonia_ppm'' \<mapsto> 900,
                 ''temp_c'' \<mapsto> 4] ''h2s_ppm'' (0::real)
   \<and> dict_get [''h2s_ppm'' \<mapsto> 12, ''ammonia_ppm'' \<mapsto> 1] ''methane_ppm'' 0
     = dict_get [''h2s_ppm'' \<mapsto> 12, ''methane_ppm'' \<mapsto> 0, ''ammonia_ppm'' \<mapsto> 900,
                 ''temp_c'' \<mapsto> 4] ''methane_ppm'' (0::real)
   \<and> get_fusion_decision ''Fresh'' [''h2s_ppm'' \<mapsto> 12, ''ammonia_ppm'' \<mapsto> 1]
     = get_fusion_decision ''Fresh'' [''h2s_ppm'' \<mapsto> 12, ''methane_ppm'' \<mapsto> 0,
                                     ''ammonia_ppm'' \<mapsto> 900, ''temp_c'' \<mapsto> 4]
   \<and> get_fusion_decision ''Fresh'' [''h2s_ppm'' \<mapsto> 12, ''ammonia_ppm'' \<mapsto> 1]
     = (''WARNING'', ''#FF9800'')"
proof -
  have a: "dict_get [''h2s_ppm'' \<mapsto> 12, ''ammonia_ppm'' \<mapsto> 1] ''h2s_ppm'' 0
     = dict_get [''h2s_ppm'' \<mapsto> 12, ''methane_ppm'' \<mapsto> 0, ''ammonia_ppm'' \<mapsto> 900,
                 ''temp_c'' \<mapsto> 4] ''h2s_ppm'' (0::real)"
    by (simp add: dict_get_def)
  have b: "dict_get [''h2s_ppm'' \<mapsto> 12, ''ammonia_ppm'' \<mapsto> 1] ''methane_ppm'' 0
     = dict_get [''h2s_ppm'' \<mapsto> 12, ''methane_ppm'' \<mapsto> 0, ''ammonia_ppm'' \<mapsto> 900,
                 ''temp_c'' \<mapsto> 4] ''methane_ppm'' (0::real)"
    by (simp add: dict_get_def)
  have c: "get_fusion_decision ''Fresh'' [''h2s_ppm'' \<mapsto> 12, ''ammonia_ppm'' \<mapsto> 1]
     = (''WARNING'', ''#FF9800'')"
    by (simp add: get_fusion_decision_def dict_get_def gas_critical_def gas_warning_def
          gas_low_def)
  show ?thesis
    using a b c get_fusion_decision_depends_on_two_keys [OF a b, of "''Fresh''"] by simp
qed

subsection \<open>Decay model\<close>








subsection \<open>Retention cleanup\<close>

text \<open>
  C8: with a retention of zero or fewer days \<^const>\<open>cleanup_old_data\<close> returns without
  raising and leaves the store as it was, so the row counts of the three tables are
  unchanged.
\<close>

theorem cleanup_nonpositive_retention_noop:
  assumes "retention_days \<le> 0"
  shows "fst (cleanup_old_data env (Some retention_days) w) = None
       \<and> db (snd (cleanup_old_data env (Some retention_days) w)) = db w
       \<and> length (sensor_readings (db (snd (cleanup_old_data env (Some retention_days) w))))
           = length (sensor_readings (db w))
       \<and> length (visual_predictions (db (snd (cleanup_old_data env (Some retention_days) w))))
           = length (visual_predictions (db w))
       \<and> length (fusion_decisions (db (snd (cleanup_old_data env (Some retention_days) w))))
           = length (fusion_decisions (db w))"
  using assms by (simp add: cleanup_old_data_def logger_def)

theorem cleanup_nonpositive_retention_noop_witness:
  "(0::int) \<le> 0
   \<and> fst (cleanup_old_data example_env (Some 0) example_world) = None
   \<and> db (snd (cleanup_old_data example_env (Some 0) example_world)) = db example_world
   \<and> length (sensor_readings (db (snd (cleanup_old_data example_env (Some 0) example_world)))) = 1
   \<and> (-7::int) \<le> 0
   \<and> db (snd (cleanup_old_data example_env (Some (-7)) example_world)) = db example_world"
proof -
  have a: "(0::int) \<le> 0" and b: "(-7::int) \<le> 0" by simp_all
  show ?thesis
    using a b cleanup_nonpositive_retention_noop [OF a, of example_env example_world]
      cleanup_nonpositive_retention_noop [OF b, of example_env example_world]
    by (simp add: example_world_def)
qed

subsection \<open>Starting the threaded client\<close>

lemma start_sets_started: "started (fst (start sw))"
  by (simp add: start_def Let_def)

lemma start_when_started:
  "started (fst sw) \<Longrightarrow> fst (start sw) = fst sw \<and> threads (snd (start sw)) = threads (snd sw)
     \<and> db (snd (start sw)) = db (snd sw)"
  by (simp add: start_def Let_def logger_def)

lemma start_threads_le_Suc: "threads (snd (start sw)) \<le> Suc (threads (snd sw))"
  by (simp add: start_def Let_def logger_def)

lemma funpow_start_started:
  "started (fst sw) \<Longrightarrow>
     started (fst ((start ^^ n) sw)) \<and> threads (snd ((start ^^ n) sw)) = threads (snd sw)"
proof (induction n)
  case 0
  then show ?case by simp
next
  case (Suc n)
  then have ih: "started (fst ((start ^^ n) sw))"
    "threads (snd ((start ^^ n) sw)) = threads (snd sw)" by simp_all
  show ?case
    using start_when_started [OF ih(1)] ih by simp
qed

lemma start_threads_le: "threads (snd ((start ^^ n) sw)) \<le> Suc (threads (snd sw))"
proof (cases n)
  case 0
  then show ?thesis by simp
next
  case (Suc m)
  have "(start ^^ Suc m) sw = (start ^^ m) (start sw)"
    by (simp add: funpow_swap1)
  with funpow_start_started [OF start_sets_started, of m sw] start_threads_le_Suc [of sw] Suc
  show ?thesis by simp
qed

text \<open>
  C9: \<^const>\<open>start\<close> on a client that is already started changes no attribute of the
  client, starts no thread and leaves the store alone (it only logs a warning); a
  second call right after a first one is such a call, and any number of calls on a new
  client starts at most one thread.
\<close>

theorem start_twice_is_noop:
  "(started self \<longrightarrow>
      fst (start (self, w)) = self
      \<and> threads (snd (start (self, w))) = threads w
      \<and> db (snd (start (self, w))) = db w)
   \<and> fst (start (start (self, w))) = fst (start (self, w))
   \<and> threads (snd (start (start (self, w)))) = threads (snd (start (self, w)))
   \<and> threads (snd ((start ^^ n) (MQTTClient, w))) \<le> Suc (threads w)"
  using start_threads_le [of n "(MQTTClient, w)"] start_when_started [of "(self, w)"]
    start_when_started [OF start_sets_started, of "(self, w)"]
  by simp

theorem start_twice_is_noop_witness:
  "started (fst (start (MQTTClient, example_world)))
   \<and> threads (snd (start (MQTTClient, example_world))) = 1
   \<and> fst (start (start (MQTTClient, example_world))) = fst (start (MQTTClient, example_world))
   \<and> threads (snd (start (start (MQTTClient, example_world)))) = 1
   \<and> threads (snd ((start ^^ 3) (MQTTClient, example_world))) \<le> 1"
  using start_twice_is_noop [of "fst (start (MQTTClient, example_world))"
          "snd (start (MQTTClient, example_world))" 3]
    start_twice_is_noop [of MQTTClient example_world 3]
  by (simp add: start_def Let_def logger_def MQTTClient_def example_world_def)


subsection \<open>Telemetry handler\<close>

lemma logger_db [simp]: "db (logger lvl m w) = db w"
  by (simp add: logger_def)

lemma logger_log [simp]: "log_records (logger lvl m w) = log_records w @ [(lvl, m)]"
  by (simp add: logger_def)

lemma extract_reading_unparseable:
  "json_loads env payload = Inl e \<Longrightarrow> extract_reading env payload = Inl e"
  by (simp add: extract_reading_def bind_err_def)

lemma process_sensor_data_unparseable:
  assumes "json_loads env payload = Inl e"
  shows "db (process_sensor_data env payload w) = db w
       \<and> (\<exists>m. log_records (process_sensor_data env payload w) = log_records w @ [(ERROR, m)])"
  using extract_reading_unparseable [OF assms]
  by (cases e) (simp_all add: process_sensor_data_def process_sensor_data_try_def)

lemma on_message_cases:
  "fst (on_message env msg sw) = None"
  by (simp add: on_message_def split: prod.splits sum.splits)

text \<open>
  C5: for a message on the telemetry topic whose payload is non-parseable, the handler
  returns without raising, the store is unchanged (no row is added to the readings)
  and an error is logged.
\<close>

theorem malformed_payload_dropped:
  assumes "msg_topic msg = topic self" and "non_parseable env (msg_payload msg)"
  shows "fst (on_message env msg (self, w)) = None
       \<and> db (snd (snd (on_message env msg (self, w)))) = db w
       \<and> sensor_readings (db (snd (snd (on_message env msg (self, w))))) = sensor_readings (db w)
       \<and> logged_error w (snd (snd (on_message env msg (self, w))))"
proof (cases "utf8_decode env (msg_payload msg)")
  case (Inl e)
  then show ?thesis
    by (simp add: on_message_def on_message_try_def Let_def logged_error_def new_log_records_def)
next
  case (Inr payload)
  with assms(2) obtain e where e: "json_loads env payload = Inl e"
    by (auto simp: non_parseable_def split: sum.splits)
  obtain m where m: "db (process_sensor_data env payload (logger DEBUG ''Received message on topic'' w)) = db w"
      "log_records (process_sensor_data env payload (logger DEBUG ''Received message on topic'' w))
         = log_records w @ [(DEBUG, ''Received message on topic''), (ERROR, m)]"
    using process_sensor_data_unparseable [OF e, of "logger DEBUG ''Received message on topic'' w"]
    by auto
  show ?thesis
    using Inr assms(1) m
    by (auto simp: on_message_def on_message_try_def Let_def logged_error_def new_log_records_def
          split: option.splits)
qed

theorem malformed_payload_dropped_witness:
  "msg_topic \<lparr>msg_topic = ''meat-quality/data'', msg_payload = ''not json''\<rparr> = topic example_client
   \<and> non_parseable example_env ''not json''
   \<and> on_message example_env \<lparr>msg_topic = ''meat-quality/data'', msg_payload = ''not json''\<rparr>
        (example_client, example_world)
     = (None, example_client\<lparr>last_message := Some ''not json''\<rparr>,
        example_world\<lparr>log_records := [(DEBUG, ''Received message on topic''),
                                      (ERROR, ''Error parsing sensor data JSON'')]\<rparr>)"
proof -
  have a: "msg_topic \<lparr>msg_topic = ''meat-quality/data'', msg_payload = ''not json''\<rparr>
             = topic example_client"
    by (simp add: example_client_def MQTT_TOPIC_def)
  have b: "non_parseable example_env
             (msg_payload \<lparr>msg_topic = ''meat-quality/data'', msg_payload = ''not json''\<rparr>)"
    by (simp add: non_parseable_def example_env_def)
  have c: "on_message example_env \<lparr>msg_topic = ''meat-quality/data'', msg_payload = ''not json''\<rparr>
        (example_client, example_world)
     = (None, example_client\<lparr>last_message := Some ''not json''\<rparr>,
        example_world\<lparr>log_records := [(DEBUG, ''Received message on topic''),
                                      (ERROR, ''Error parsing sensor data JSON'')]\<rparr>)"
    by (simp add: on_message_def on_message_try_def Let_def process_sensor_data_def
          process_sensor_data_try_def extract_reading_def bind_err_def example_env_def
          example_client_def example_world_def MQTT_TOPIC_def logger_def)
  show ?thesis
    using a b c malformed_payload_dropped [OF a b, of example_world] by simp
qed























end
